theory Spec2Isabelle
  imports Complex_Main
begin

section \<open>Python values\<close>

datatype py_error =
    ZeroDivisionError
  | OverflowError
  | ValueError
  | IndexError
  | LibraryError string

datatype jval =
    JNull
  | JBool bool
  | JNum real
  | JStr string
  | JArr "jval list"
  | JObj "(string \<times> jval) list"

text \<open>
  A Python \<open>float\<close> is an IEEE double: \<open>Finite x\<close> is the double whose exact value is
  \<open>x\<close> (both zeros are \<open>Finite 0\<close>), beside the two infinities and not-a-number.
  Comparisons of doubles are exact; every comparison with not-a-number is false.
\<close>

datatype pyfloat = Finite real | PInf | NInf | NaN

fun fl_lt :: "pyfloat \<Rightarrow> pyfloat \<Rightarrow> bool" where
  "fl_lt NaN b = False"
| "fl_lt a NaN = False"
| "fl_lt a NInf = False"
| "fl_lt NInf b = True"
| "fl_lt PInf b = False"
| "fl_lt a PInf = True"
| "fl_lt (Finite x) (Finite y) = (x < y)"

fun fl_le :: "pyfloat \<Rightarrow> pyfloat \<Rightarrow> bool" where
  "fl_le NaN b = False"
| "fl_le a NaN = False"
| "fl_le NInf b = True"
| "fl_le a NInf = False"
| "fl_le a PInf = True"
| "fl_le PInf b = False"
| "fl_le (Finite x) (Finite y) = (x \<le> y)"

definition fl_gt :: "pyfloat \<Rightarrow> pyfloat \<Rightarrow> bool" where
  "fl_gt a b = fl_lt b a"

text \<open>\<open>int(x)\<close> of a float: truncation towards zero, which is exact.\<close>

fun int_of_float :: "pyfloat \<Rightarrow> py_error + int" where
  "int_of_float (Finite x) = Inr (if 0 \<le> x then \<lfloor>x\<rfloor> else \<lceil>x\<rceil>)"
| "int_of_float PInf = Inl OverflowError"
| "int_of_float NInf = Inl OverflowError"
| "int_of_float NaN = Inl ValueError"

text \<open>
  What the interpreter and its library compute is a parameter of the model: the rounded
  arithmetic of doubles (\<open>//\<close> with a divisor other than zero, \<open>*\<close>, \<open>+\<close>, \<open>-\<close>), the
  conversion of an \<open>int\<close> operand to a double (\<open>None\<close> when the int is too large, which
  raises \<open>OverflowError\<close>), \<open>str.upper\<close>, and \<open>json.loads\<close> (\<open>None\<close> when it raises, the
  decoded dictionary otherwise, as a list of its items with one entry for each key: a
  text that starts with a brace decodes to a dictionary or not at all).  Strings are
  byte strings (UTF-8).
\<close>

record python =
  fl_floordiv :: "pyfloat \<Rightarrow> pyfloat \<Rightarrow> pyfloat"
  fl_mul :: "pyfloat \<Rightarrow> pyfloat \<Rightarrow> pyfloat"
  fl_add :: "pyfloat \<Rightarrow> pyfloat \<Rightarrow> pyfloat"
  fl_sub :: "pyfloat \<Rightarrow> pyfloat \<Rightarrow> pyfloat"
  float_of_int :: "int \<Rightarrow> pyfloat option"
  str_upper :: "string \<Rightarrow> string"
  json_loads :: "string \<Rightarrow> (string \<times> jval) list option"

text \<open>
  \<open>lower\<close> is \<open>str.lower\<close> on the ASCII letters; it is used only to look for ASCII
  keywords in a message.
\<close>

definition lower_char :: "char \<Rightarrow> char" where
  "lower_char c =
     (let n = (of_char c :: nat) in if 65 \<le> n \<and> n \<le> 90 then char_of (n + 32) else c)"

definition lower :: "string \<Rightarrow> string" where
  "lower s = map lower_char s"

text \<open>\<open>starts_with k s\<close> is \<open>s.startswith(k)\<close>; \<open>contains k s\<close> is Python's \<open>k in s\<close>.\<close>

fun starts_with :: "string \<Rightarrow> string \<Rightarrow> bool" where
  "starts_with [] s = True"
| "starts_with (k # ks) [] = False"
| "starts_with (k # ks) (c # cs) = (k = c \<and> starts_with ks cs)"

fun contains :: "string \<Rightarrow> string \<Rightarrow> bool" where
  "contains k [] = (k = [])"
| "contains k (c # cs) = (starts_with k (c # cs) \<or> contains k cs)"

section \<open>config.py\<close>

record config =
  GEMINI_API_KEYS :: "string list"
  GEMINI_MODELS :: "string list"
  INITIAL_BALANCE :: pyfloat

section \<open>db\_client.py: the state store\<close>

text \<open>
  One row of each single-row table (absent before \<open>init_db\<close>), the append-only trade
  log, and the prices of \<open>market_data\<close>, oldest first.  \<open>db_now\<close> is the wall clock
  that \<open>log_trade\<close> stamps its rows with.  Every method of \<open>TradingDB\<close> wraps its
  statement in \<open>try/except\<close>; the flag \<open>ok\<close> of each operation says whether the
  statement went through.
\<close>

record portfolio =
  balance :: pyfloat
  positions :: int
  last_trade_time :: "string option"

record trade =
  t_timestamp :: string
  t_action :: string
  t_price :: pyfloat
  t_quantity :: int
  t_balance :: pyfloat

record db =
  db_now :: string
  portfolio_row :: "portfolio option"
  manager_action :: "string option"
  trade_logs :: "trade list"
  market_data :: "pyfloat list"

definition default_portfolio :: "config \<Rightarrow> portfolio" where
  "default_portfolio cfg =
     \<lparr>balance = INITIAL_BALANCE cfg, positions = 0, last_trade_time = None\<rparr>"

definition get_portfolio :: "bool \<Rightarrow> config \<Rightarrow> db \<Rightarrow> portfolio" where
  "get_portfolio ok cfg d =
     (if ok then (case portfolio_row d of Some p \<Rightarrow> p | None \<Rightarrow> default_portfolio cfg)
      else default_portfolio cfg)"

definition update_portfolio ::
  "bool \<Rightarrow> db \<Rightarrow> pyfloat \<Rightarrow> int \<Rightarrow> string option \<Rightarrow> db \<times> bool" where
  "update_portfolio ok d b p t =
     (if ok then
        (d\<lparr>portfolio_row :=
              map_option (\<lambda>_. \<lparr>balance = b, positions = p, last_trade_time = t\<rparr>)
                (portfolio_row d)\<rparr>, True)
      else (d, False))"

definition log_trade ::
  "bool \<Rightarrow> db \<Rightarrow> string \<Rightarrow> pyfloat \<Rightarrow> int \<Rightarrow> pyfloat \<Rightarrow> db \<times> bool" where
  "log_trade ok d a pr q b =
     (if ok then
        (d\<lparr>trade_logs := trade_logs d @
              [\<lparr>t_timestamp = db_now d, t_action = a, t_price = pr,
                t_quantity = q, t_balance = b\<rparr>]\<rparr>, True)
      else (d, False))"

definition get_manager_status :: "python \<Rightarrow> bool \<Rightarrow> db \<Rightarrow> string" where
  "get_manager_status py ok d =
     (if ok then (case manager_action d of Some a \<Rightarrow> str_upper py a | None \<Rightarrow> ''CONTINUE'')
      else ''CONTINUE'')"

section \<open>services/execution\_engine.py\<close>

text \<open>The signal file, with the four entries that \<open>save_signal\<close> writes.\<close>

record signal =
  s_timestamp :: string
  s_signal :: string
  s_confidence :: pyfloat
  s_rsi :: pyfloat

text \<open>Which statements of one pass of the loop in \<open>run\<close> went through.\<close>

record io =
  io_portfolio :: bool
  io_prices :: bool
  io_manager :: bool
  io_log :: bool
  io_update :: bool

definition get_current_price :: "bool \<Rightarrow> db \<Rightarrow> pyfloat option" where
  "get_current_price ok d =
     (if ok \<and> market_data d \<noteq> [] then Some (last (market_data d)) else None)"

text \<open>
  \<open>int(balance // price)\<close> raises on a zero price, on an infinite quotient and on
  not-a-number; \<open>qty * price\<close> converts the int to a double first.  Each of these
  comes before the two writes.
\<close>

definition execute_buy ::
  "python \<Rightarrow> io \<Rightarrow> db \<Rightarrow> pyfloat \<Rightarrow> int \<Rightarrow> pyfloat \<Rightarrow> string
     \<Rightarrow> py_error + (db \<times> pyfloat \<times> int \<times> bool)" where
  "execute_buy py i d bal pos price ts =
     (if fl_le bal price then Inr (d, bal, pos, False)
      else if price = Finite 0 then Inl ZeroDivisionError
      else
        (case int_of_float (fl_floordiv py bal price) of
           Inl e \<Rightarrow> Inl e
         | Inr qty \<Rightarrow>
             (case float_of_int py qty of
                None \<Rightarrow> Inl OverflowError
              | Some fq \<Rightarrow>
                  let cost = fl_mul py fq price;
                      new_balance = fl_sub py bal cost;
                      new_positions = pos + qty;
                      d1 = fst (log_trade (io_log i) d ''BUY'' price qty new_balance);
                      d2 = fst (update_portfolio (io_update i) d1 new_balance new_positions
                                  (Some ts))
                  in Inr (d2, new_balance, new_positions, True))))"

definition execute_sell ::
  "python \<Rightarrow> io \<Rightarrow> db \<Rightarrow> pyfloat \<Rightarrow> int \<Rightarrow> pyfloat \<Rightarrow> string
     \<Rightarrow> py_error + (db \<times> pyfloat \<times> int \<times> bool)" where
  "execute_sell py i d bal pos price ts =
     (if pos \<le> 0 then Inr (d, bal, pos, False)
      else
        (case float_of_int py pos of
           None \<Rightarrow> Inl OverflowError
         | Some fp \<Rightarrow>
             let revenue = fl_mul py fp price;
                 new_balance = fl_add py bal revenue;
                 d1 = fst (log_trade (io_log i) d ''SELL'' price pos new_balance);
                 d2 = fst (update_portfolio (io_update i) d1 new_balance 0 (Some ts))
             in Inr (d2, new_balance, 0, True)))"

text \<open>
  One pass of the \<open>while True\<close> loop of \<open>run\<close>, up to the trade block.  The source
  returns nothing; the tag names the branch that ended the pass: the \<open>continue\<close> after a
  missing signal or price, after the anti-spam test, after the manager check, the trade
  block, or the \<open>except\<close> clause.  \<open>not price\<close> holds of a zero price.
\<close>

datatype cycle_result = IDLE | STALE_SIGNAL | GATED | ACTING | ERROR

definition execute_cycle ::
  "python \<Rightarrow> io \<Rightarrow> config \<Rightarrow> signal option \<Rightarrow> db \<Rightarrow> cycle_result \<times> db" where
  "execute_cycle py i cfg sg d =
     (let pf = get_portfolio (io_portfolio i) cfg d;
          bal = balance pf;
          pos = positions pf;
          last_trade = last_trade_time pf
      in case sg of
           None \<Rightarrow> (IDLE, d)
         | Some s \<Rightarrow>
             (case get_current_price (io_prices i) d of
                None \<Rightarrow> (IDLE, d)
              | Some price \<Rightarrow>
                  if price = Finite 0 then (IDLE, d)
                  else if Some (s_timestamp s) = last_trade then (STALE_SIGNAL, d)
                  else if get_manager_status py (io_manager i) d = ''PAUSE'' then (GATED, d)
                  else if s_signal s = ''BUY'' \<and> fl_gt bal price then
                    (case execute_buy py i d bal pos price (s_timestamp s) of
                       Inl e \<Rightarrow> (ERROR, d)
                     | Inr r \<Rightarrow> (ACTING, fst r))
                  else if s_signal s = ''SELL'' \<and> pos > 0 then
                    (case execute_sell py i d bal pos price (s_timestamp s) of
                       Inl e \<Rightarrow> (ERROR, d)
                     | Inr r \<Rightarrow> (ACTING, fst r))
                  else (ACTING, d)))"

section \<open>services/gemini\_manager.py\<close>

text \<open>The module globals \<open>current_api_idx\<close> and \<open>current_model_idx\<close>.\<close>

record rot =
  current_api_idx :: nat
  current_model_idx :: nat

text \<open>
  \<open>%\<close> by the length of an empty list raises \<open>ZeroDivisionError\<close>; raised inside the
  \<open>except\<close> clause of \<open>get_command\<close>, it would leave that function.
\<close>

definition rotate_model :: "config \<Rightarrow> rot \<Rightarrow> py_error + rot" where
  "rotate_model cfg st =
     (if length (GEMINI_MODELS cfg) = 0 then Inl ZeroDivisionError
      else Inr (st\<lparr>current_model_idx :=
                     (current_model_idx st + 1) mod length (GEMINI_MODELS cfg)\<rparr>))"

definition rotate_api :: "config \<Rightarrow> rot \<Rightarrow> py_error + rot" where
  "rotate_api cfg st =
     (if length (GEMINI_API_KEYS cfg) = 0 then Inl ZeroDivisionError
      else Inr (st\<lparr>current_api_idx :=
                     (current_api_idx st + 1) mod length (GEMINI_API_KEYS cfg),
                   current_model_idx := 0\<rparr>))"

definition is_rate_limit :: "string \<Rightarrow> bool" where
  "is_rate_limit msg =
     list_ex (\<lambda>k. contains k (lower msg)) [''rate'', ''quota'', ''429'', ''exhausted'']"

definition is_not_found :: "string \<Rightarrow> bool" where
  "is_not_found msg = (contains ''404'' (lower msg) \<or> contains ''not found'' (lower msg))"

text \<open>
  The search of \<open>parse_response\<close> for an opening brace, one or more characters other
  than a closing brace, and a closing brace: the leftmost opening brace that is followed
  by at least one such character and then a closing brace; the match runs up to that
  first closing brace.
\<close>

fun re_search_braces :: "string \<Rightarrow> string option" where
  "re_search_braces [] = None"
| "re_search_braces (c # cs) =
     (if c = CHR 0x7B \<and> takeWhile (\<lambda>x. x \<noteq> CHR 0x7D) cs \<noteq> []
           \<and> dropWhile (\<lambda>x. x \<noteq> CHR 0x7D) cs \<noteq> []
      then Some (c # takeWhile (\<lambda>x. x \<noteq> CHR 0x7D) cs @ [CHR 0x7D])
      else re_search_braces cs)"

text \<open>\<open>.replace\<close> of the single quote (0x27) by the double quote (0x22).\<close>

definition replace_quotes :: "string \<Rightarrow> string" where
  "replace_quotes s = map (\<lambda>c. if c = CHR 0x27 then CHR 0x22 else c) s"

text \<open>
  The bare \<open>except\<close> of \<open>parse_response\<close> catches what \<open>json.loads\<close> raises and the
  \<open>AttributeError\<close> of \<open>.upper()\<close> on an action that is no string.
\<close>

definition parse_response :: "python \<Rightarrow> string \<Rightarrow> string \<times> jval" where
  "parse_response py text =
     (case re_search_braces text of
        None \<Rightarrow> (''CONTINUE'', JStr ''Parse fallback'')
      | Some m \<Rightarrow>
          (case json_loads py (replace_quotes m) of
             None \<Rightarrow> (''CONTINUE'', JStr ''Parse error'')
           | Some data \<Rightarrow>
               (case map_of data ''action'' of
                  None \<Rightarrow> (''CONTINUE'', JStr ''Parse fallback'')
                | Some (JStr a) \<Rightarrow>
                    (let action = str_upper py a in
                     if action \<in> set [''CONTINUE'', ''PAUSE'']
                     then (action, (case map_of data ''reason'' of
                                      None \<Rightarrow> JStr [] | Some v \<Rightarrow> v))
                     else (''CONTINUE'', JStr ''Parse fallback''))
                | Some _ \<Rightarrow> (''CONTINUE'', JStr ''Parse error''))))"

text \<open>
  What one pass of the \<open>try\<close> block of \<open>get_command\<close> meets: the stripped text of the
  response, or the message of the exception raised on the way.
\<close>

datatype outcome = Response string | Raised string

text \<open>
  \<open>configure_gemini\<close> indexes both lists; an index out of range raises \<open>IndexError\<close>
  inside the \<open>try\<close> block.
\<close>

definition attempt :: "config \<Rightarrow> rot \<Rightarrow> outcome \<Rightarrow> outcome" where
  "attempt cfg st oc =
     (if current_api_idx st < length (GEMINI_API_KEYS cfg)
         \<and> current_model_idx st < length (GEMINI_MODELS cfg)
      then oc else Raised ''list index out of range'')"

text \<open>The \<open>except\<close> clause: rotate and go on with the loop, or return.\<close>

datatype handled = Go_on rot | Return "string \<times> jval"

definition handle_exception :: "config \<Rightarrow> rot \<Rightarrow> string \<Rightarrow> py_error + handled" where
  "handle_exception cfg st e =
     (if is_not_found e then map_sum id Go_on (rotate_model cfg st)
      else if is_rate_limit e then
        (if int (current_model_idx st) < int (length (GEMINI_MODELS cfg)) - 1
         then map_sum id Go_on (rotate_model cfg st)
         else if int (current_api_idx st) < int (length (GEMINI_API_KEYS cfg)) - 1
         then map_sum id Go_on (rotate_api cfg st)
         else Inr (Return (''CONTINUE'', JStr ''All APIs exhausted'')))
      else map_sum id Go_on (rotate_model cfg st))"

text \<open>
  The \<open>for _ in range(attempts)\<close> loop with \<open>n\<close> passes left; \<open>call k\<close> is what the
  \<open>k\<close>-th request of this evaluation meets.  The result carries the returned pair, the
  globals as they are left, and the (credential, model) indices of every pass made.
\<close>

fun get_command_loop ::
  "python \<Rightarrow> config \<Rightarrow> (nat \<Rightarrow> outcome) \<Rightarrow> nat \<Rightarrow> nat \<Rightarrow> rot
     \<Rightarrow> py_error + ((string \<times> jval) \<times> rot \<times> (nat \<times> nat) list)" where
  "get_command_loop py cfg call 0 k st = Inr ((''CONTINUE'', JStr ''Failed''), st, [])"
| "get_command_loop py cfg call (Suc n) k st =
     (case attempt cfg st (call k) of
        Response text \<Rightarrow>
          Inr (parse_response py text, st, [(current_api_idx st, current_model_idx st)])
      | Raised e \<Rightarrow>
          (case handle_exception cfg st e of
             Inl err \<Rightarrow> Inl err
           | Inr (Return r) \<Rightarrow> Inr (r, st, [(current_api_idx st, current_model_idx st)])
           | Inr (Go_on st') \<Rightarrow>
               (case get_command_loop py cfg call n (Suc k) st' of
                  Inl err \<Rightarrow> Inl err
                | Inr (r, st'', tr) \<Rightarrow>
                    Inr (r, st'', (current_api_idx st, current_model_idx st) # tr))))"

text \<open>
  The arguments \<open>trades_summary\<close>, \<open>balance\<close> and \<open>positions\<close> of \<open>get_command\<close> only
  fill the prompt (a float and an int from the portfolio row) and are left out.
\<close>

definition attempts :: "config \<Rightarrow> nat" where
  "attempts cfg = length (GEMINI_API_KEYS cfg) * length (GEMINI_MODELS cfg)"

definition get_command ::
  "python \<Rightarrow> config \<Rightarrow> (nat \<Rightarrow> outcome) \<Rightarrow> rot
     \<Rightarrow> py_error + ((string \<times> jval) \<times> rot \<times> (nat \<times> nat) list)" where
  "get_command py cfg call st = get_command_loop py cfg call (attempts cfg) 0 st"

section \<open>services/quant\_engine.py\<close>

text \<open>
  A row of the feature frame; \<open>Datetime\<close> holds the text that \<open>train_and_predict\<close>
  makes of the cell (\<open>strftime\<close> of a timestamp, \<open>str\<close> of anything else).
\<close>

record row =
  Datetime :: string
  Close :: pyfloat
  High :: pyfloat
  Low :: pyfloat
  Volume :: pyfloat
  RSI :: pyfloat
  SMA :: pyfloat

definition feature_cols :: "row \<Rightarrow> pyfloat list" where
  "feature_cols r = [RSI r, SMA r, Close r, High r, Low r, Volume r]"

text \<open>
  \<open>(Close.shift(-1) > Close).astype(int)\<close>: the shifted column is not-a-number in the
  last row, where the comparison is false.
\<close>

fun target :: "pyfloat list \<Rightarrow> int list" where
  "target [] = []"
| "target [c] = [0]"
| "target (c # c' # cs) = (if fl_gt c' c then 1 else 0) # target (c' # cs)"

definition df_train :: "row list \<Rightarrow> (row \<times> int) list" where
  "df_train df = butlast (zip df (target (map Close df)))"

text \<open>
  The classifier and \<open>round\<close> come from libraries.  \<open>xgb_fit_predict X y latest\<close> stands
  for fitting a fresh \<open>XGBClassifier\<close> on \<open>X, y\<close> and taking \<open>predict(latest)[0]\<close> and
  \<open>predict_proba(latest)[0]\<close>; it is \<open>Inl\<close> when one of the three raises.
\<close>

record ml =
  xgb_fit_predict ::
    "pyfloat list list \<Rightarrow> int list \<Rightarrow> pyfloat list \<Rightarrow> py_error + (int \<times> pyfloat list)"
  py_round :: "pyfloat \<Rightarrow> nat \<Rightarrow> pyfloat"

text \<open>\<open>proba[pred]\<close>: an index below zero counts from the end.\<close>

definition np_index :: "'a list \<Rightarrow> int \<Rightarrow> py_error + 'a" where
  "np_index proba pred =
     (if 0 \<le> pred \<and> pred < int (length proba) then Inr (proba ! nat pred)
      else if pred < 0 \<and> - int (length proba) \<le> pred
      then Inr (proba ! nat (int (length proba) + pred))
      else Inl IndexError)"

definition train_and_predict :: "ml \<Rightarrow> row list \<Rightarrow> py_error + signal option" where
  "train_and_predict m df =
     (if length (df_train df) < 50 then Inr None
      else
        (case xgb_fit_predict m (map (feature_cols \<circ> fst) (df_train df))
                (map snd (df_train df)) (feature_cols (last df)) of
           Inl e \<Rightarrow> Inl e
         | Inr (pred, proba) \<Rightarrow>
             (case np_index proba pred of
                Inl e \<Rightarrow> Inl e
              | Inr c \<Rightarrow>
                  Inr (Some \<lparr>s_timestamp = Datetime (last df),
                             s_signal = (if pred = 1 then ''BUY'' else ''SELL''),
                             s_confidence = py_round m c 4,
                             s_rsi = py_round m (RSI (last df)) 2\<rparr>))))"

text \<open>
  The training set in the words of the specification: every row but the last, labelled
  1 exactly when the next row's close is strictly greater than its own, and 0 otherwise.
\<close>

definition spec_labelled_rows :: "row list \<Rightarrow> (row \<times> int) list" where
  "spec_labelled_rows df =
     map (\<lambda>j. (df ! j, if fl_gt (Close (df ! Suc j)) (Close (df ! j)) then 1 else 0))
       [0..<length df - 1]"

section \<open>A pass that ends the sweep\<close>

text \<open>
  The one pass of the loop of \<open>get_command\<close> whose \<open>except\<close> clause returns: it is
  made at the last model of the last credential and meets a quota error that is no
  not-found error (lines 94 to 100).
\<close>

definition quota_at_last :: "config \<Rightarrow> nat \<times> nat \<Rightarrow> outcome \<Rightarrow> bool" where
  "quota_at_last cfg am oc =
     (fst am + 1 = length (GEMINI_API_KEYS cfg) \<and> snd am + 1 = length (GEMINI_MODELS cfg)
      \<and> (case oc of Raised e \<Rightarrow> is_rate_limit e \<and> \<not> is_not_found e
                    | Response t \<Rightarrow> False))"

section \<open>Sample data\<close>

text \<open>
  \<open>str.upper\<close> on ASCII text, for the examples.
\<close>

definition upper_char :: "char \<Rightarrow> char" where
  "upper_char c =
     (let n = (of_char c :: nat) in if 97 \<le> n \<and> n \<le> 122 then char_of (n - 32) else c)"

definition ascii_upper :: "string \<Rightarrow> string" where
  "ascii_upper s = map upper_char s"

text \<open>
  The doubles nearest to 1.3 and to 0.1, and the double that Python prints as
  0.30000000000000004.
\<close>

definition double_1_3 :: real where
  "double_1_3 = 5854679515581645 / 4503599627370496"

definition double_0_1 :: real where
  "double_0_1 = 3602879701896397 / 36028797018963968"

definition double_0_3 :: real where
  "double_0_3 = 1351079888211149 / 4503599627370496"

text \<open>
  Python's operations at the operands of the examples below (IEEE doubles, rounded to
  nearest): \<open>1e17 // 1.3\<close> is 76923076923076928.0, \<open>76923076923076928 * 1.3\<close> is
  1.0000000000000002e17, \<open>1e17 // 7.0\<close> is 14285714285714286.0,
  \<open>14285714285714286 * 7.0\<close> is 1e17, \<open>3 * 0.1\<close> is 0.30000000000000004; the other
  entries are exact.  The tables are looked up at these operands only; elsewhere they
  say not-a-number or \<open>None\<close>.
\<close>

definition sample_floordiv :: "pyfloat \<Rightarrow> pyfloat \<Rightarrow> pyfloat" where
  "sample_floordiv a b =
     (if a = Finite 100000 \<and> b = Finite 100 then Finite 1000
      else if a = Finite 100000000000000000 \<and> b = Finite double_1_3
      then Finite 76923076923076928
      else if a = Finite 100000000000000000 \<and> b = Finite 7 then Finite 14285714285714286
      else NaN)"

definition sample_mul :: "pyfloat \<Rightarrow> pyfloat \<Rightarrow> pyfloat" where
  "sample_mul a b =
     (if a = Finite 1000 \<and> b = Finite 100 then Finite 100000
      else if a = Finite 1000 \<and> b = Finite 105 then Finite 105000
      else if a = Finite 76923076923076928 \<and> b = Finite double_1_3
      then Finite 100000000000000016
      else if a = Finite 14285714285714286 \<and> b = Finite 7 then Finite 100000000000000000
      else if a = Finite 3 \<and> b = Finite double_0_1 then Finite double_0_3
      else NaN)"

definition sample_add :: "pyfloat \<Rightarrow> pyfloat \<Rightarrow> pyfloat" where
  "sample_add a b =
     (if a = Finite 500 \<and> b = Finite 105000 then Finite 105500
      else if a = Finite 0 \<and> b = Finite double_0_3 then Finite double_0_3
      else NaN)"

definition sample_sub :: "pyfloat \<Rightarrow> pyfloat \<Rightarrow> pyfloat" where
  "sample_sub a b =
     (if a = Finite 100000 \<and> b = Finite 100000 then Finite 0
      else if a = Finite 100000000000000000 \<and> b = Finite 100000000000000016
      then Finite (- 16)
      else if a = Finite 100000000000000000 \<and> b = Finite 100000000000000000 then Finite 0
      else NaN)"

definition sample_float_of_int :: "int \<Rightarrow> pyfloat option" where
  "sample_float_of_int n =
     (if n = 3 \<or> n = 1000 \<or> n = 76923076923076928 \<or> n = 14285714285714286
      then Some (Finite (of_int n)) else None)"

text \<open>
  The values of \<open>json.loads\<close> at the texts of the examples below: two objects it
  decodes, and \<open>None\<close> at \<open>{x}\<close>, which it rejects.  The table is looked up at
  these texts only.
\<close>

definition sample_loads :: "string \<Rightarrow> (string \<times> jval) list option" where
  "sample_loads s =
     (if s = ''{\"action\": \"PAUSE\", \"reason\": \"High Risk\"}''
      then Some [(''action'', JStr ''PAUSE''), (''reason'', JStr ''High Risk'')]
      else if s = ''{\"action\": \"HOLD\"}'' then Some [(''action'', JStr ''HOLD'')]
      else None)"

definition sample_py :: python where
  "sample_py = \<lparr>fl_floordiv = sample_floordiv, fl_mul = sample_mul, fl_add = sample_add,
       fl_sub = sample_sub, float_of_int = sample_float_of_int, str_upper = ascii_upper,
       json_loads = sample_loads\<rparr>"

text \<open>
  A store after \<open>init_db\<close> with two price rows, and a fresh BUY signal; the same
  store after that signal was traded, with a paused manager, and with a large balance
  at the price 1.3.
\<close>

definition sample_io :: io where
  "sample_io = \<lparr>io_portfolio = True, io_prices = True, io_manager = True,
                 io_log = True, io_update = True\<rparr>"

definition sample_config :: config where
  "sample_config = \<lparr>GEMINI_API_KEYS = [''key-1'', ''key-2''],
       GEMINI_MODELS = [''gemini-2.5-flash'', ''gemini-2.5-flash-lite'', ''gemini-2.0-flash''],
       INITIAL_BALANCE = Finite 100000\<rparr>"

definition sample_portfolio :: portfolio where
  "sample_portfolio =
     \<lparr>balance = Finite 100000, positions = 0, last_trade_time = Some ''09:15''\<rparr>"

definition sample_db :: db where
  "sample_db = \<lparr>db_now = ''09:31'', portfolio_row = Some sample_portfolio,
       manager_action = Some ''CONTINUE'', trade_logs = [],
       market_data = [Finite 99, Finite 100]\<rparr>"

definition sample_buy :: signal where
  "sample_buy = \<lparr>s_timestamp = ''09:30'', s_signal = ''BUY'',
       s_confidence = Finite (7 / 10), s_rsi = Finite 41\<rparr>"

definition stale_db :: db where
  "stale_db = sample_db\<lparr>portfolio_row :=
       Some \<lparr>balance = Finite 500, positions = 1000, last_trade_time = Some ''09:30''\<rparr>\<rparr>"

definition paused_db :: db where
  "paused_db = sample_db\<lparr>manager_action := Some ''PAUSE''\<rparr>"

definition large_db :: db where
  "large_db = sample_db\<lparr>portfolio_row :=
       Some \<lparr>balance = Finite 100000000000000000, positions = 0, last_trade_time = None\<rparr>,
     market_data := [Finite double_1_3]\<rparr>"

text \<open>
  Every request of an evaluation raises the same message.
\<close>

definition all_raise :: "string \<Rightarrow> nat \<Rightarrow> outcome" where
  "all_raise e k = Raised e"

text \<open>
  A frame of 51 rows with rising closes, and a stand-in for the classifier that
  predicts the last label it was given.
\<close>

definition sample_row :: "string \<Rightarrow> real \<Rightarrow> row" where
  "sample_row t c = \<lparr>Datetime = t, Close = Finite c, High = Finite c, Low = Finite c,
       Volume = Finite 0, RSI = Finite 50, SMA = Finite c\<rparr>"

definition sample_frame :: "row list" where
  "sample_frame =
     map (\<lambda>n. sample_row (if n = 50 then ''09:30'' else ''earlier'') (real n)) [0..<51]"

definition sample_ml :: ml where
  "sample_ml =
     \<lparr>xgb_fit_predict =
        (\<lambda>X y latest. if length X = length y \<and> y \<noteq> []
                       then Inr (last y, [Finite (2 / 5), Finite (3 / 5)])
                       else Inl (LibraryError ''fit'')),
      py_round = (\<lambda>x n. x)\<rparr>"

section \<open>Properties of the execution engine\<close>

lemmas sample_ops = sample_py_def sample_floordiv_def sample_mul_def sample_add_def
  sample_sub_def sample_float_of_int_def double_1_3_def double_0_1_def double_0_3_def

lemmas sample_data = sample_io_def sample_config_def sample_portfolio_def sample_db_def
  sample_buy_def stale_db_def paused_db_def large_db_def

lemmas cycle_defs = execute_cycle_def get_portfolio_def default_portfolio_def
  get_current_price_def get_manager_status_def execute_buy_def execute_sell_def
  log_trade_def update_portfolio_def fl_gt_def Let_def ascii_upper_def upper_char_def

text \<open>
  Claim C1.  One pass of the execution loop should leave a balance and a position
  that are not negative.  The code does not: from a balance of 1e17, no position and
  the price 1.3, a BUY signal buys 76923076923076928 shares, more than the balance
  pays for, and stores the balance -16.
\<close>

theorem buy_overspends:
  "execute_cycle sample_py sample_io sample_config (Some sample_buy) large_db
     = (ACTING,
        large_db\<lparr>trade_logs :=
                    [\<lparr>t_timestamp = ''09:31'', t_action = ''BUY'', t_price = Finite double_1_3,
                      t_quantity = 76923076923076928, t_balance = Finite (- 16)\<rparr>],
                  portfolio_row :=
                    Some \<lparr>balance = Finite (- 16), positions = 76923076923076928,
                          last_trade_time = Some ''09:30''\<rparr>\<rparr>)
   \<and> fl_lt (Finite (- 16)) (Finite 0)"
  by (simp add: cycle_defs sample_ops sample_data)




text \<open>
  Claim C3, as the code has it.  When the manager read goes through and the stored
  action reads \<open>PAUSE\<close>, the pass changes nothing in the store, whatever the signal,
  the price and the portfolio are; with a fresh signal and a current price it ends in
  the manager-check branch.
\<close>

theorem pause_no_mutation:
  assumes "io_manager i" and "manager_action d = Some a" and "str_upper py a = ''PAUSE''"
  shows "snd (execute_cycle py i cfg sg d) = d
       \<and> (\<forall>s pr. sg = Some s \<and> get_current_price (io_prices i) d = Some pr \<and> pr \<noteq> Finite 0
              \<and> last_trade_time (get_portfolio (io_portfolio i) cfg d) \<noteq> Some (s_timestamp s)
            \<longrightarrow> fst (execute_cycle py i cfg sg d) = GATED)"
  using assms
  by (auto simp: execute_cycle_def Let_def get_manager_status_def split: option.splits)

theorem pause_no_mutation_witness:
  "execute_cycle sample_py sample_io sample_config (Some sample_buy) paused_db
     = (GATED, paused_db)"
proof -
  have a: "io_manager sample_io" by (simp add: sample_io_def)
  have b: "manager_action paused_db = Some ''PAUSE''"
    by (simp add: paused_db_def sample_db_def)
  have c: "str_upper sample_py ''PAUSE'' = ''PAUSE''"
    by (simp add: sample_py_def ascii_upper_def upper_char_def)
  have d: "get_current_price (io_prices sample_io) paused_db = Some (Finite 100)"
    "last_trade_time (get_portfolio (io_portfolio sample_io) sample_config paused_db)
       \<noteq> Some (s_timestamp sample_buy)"
    by (simp_all add: get_current_price_def get_portfolio_def sample_data)
  from pause_no_mutation [OF a b c, of sample_config "Some sample_buy"] d
  show ?thesis by (simp add: prod_eq_iff)
qed

text \<open>
  When the manager read fails, \<open>get_manager_status\<close> answers \<open>CONTINUE\<close>: the pass
  trades although the stored action is \<open>PAUSE\<close>.
\<close>

theorem paused_gate_traded_after_failed_read:
  "manager_action paused_db = Some ''PAUSE''
   \<and> execute_cycle sample_py (sample_io\<lparr>io_manager := False\<rparr>) sample_config
        (Some sample_buy) paused_db
     = (ACTING,
        paused_db\<lparr>trade_logs :=
                    [\<lparr>t_timestamp = ''09:31'', t_action = ''BUY'', t_price = Finite 100,
                      t_quantity = 1000, t_balance = Finite 0\<rparr>],
                  portfolio_row :=
                    Some \<lparr>balance = Finite 0, positions = 1000,
                          last_trade_time = Some ''09:30''\<rparr>\<rparr>)"
  by (simp add: cycle_defs sample_ops sample_data)







section \<open>Properties of the risk manager\<close>

lemma index_error_class:
  "\<not> is_rate_limit ''list index out of range''" "\<not> is_not_found ''list index out of range''"
  by (simp_all add: is_rate_limit_def is_not_found_def lower_def lower_char_def)

lemma parse_response_action:
  "fst (parse_response py t) = ''CONTINUE'' \<or> fst (parse_response py t) = ''PAUSE''"
  by (auto simp: parse_response_def Let_def split: option.splits jval.splits)

lemma handle_exception_cases:
  assumes "GEMINI_MODELS cfg \<noteq> []"
  shows "(\<exists>st'. handle_exception cfg st e = Inr (Go_on st'))
       \<or> handle_exception cfg st e = Inr (Return (''CONTINUE'', JStr ''All APIs exhausted''))"
  using assms
  by (auto simp: handle_exception_def rotate_model_def rotate_api_def)

lemma attempt_cases:
  "attempt cfg st oc = oc \<or> attempt cfg st oc = Raised ''list index out of range''"
  by (simp add: attempt_def)

lemma return_is_quota_at_last:
  assumes "attempt cfg st oc = Raised e"
    and "handle_exception cfg st e = Inr (Return r)"
  shows "quota_at_last cfg (current_api_idx st, current_model_idx st) oc"
proof -
  from assms(2) have q: "is_rate_limit e" "\<not> is_not_found e"
    and m: "\<not> int (current_model_idx st) < int (length (GEMINI_MODELS cfg)) - 1"
    and a: "\<not> int (current_api_idx st) < int (length (GEMINI_API_KEYS cfg)) - 1"
    by (auto simp: handle_exception_def rotate_model_def rotate_api_def split: if_splits)
  from q(1) index_error_class(1) have "e \<noteq> ''list index out of range''" by auto
  with assms(1) have r: "current_api_idx st < length (GEMINI_API_KEYS cfg)"
    "current_model_idx st < length (GEMINI_MODELS cfg)" "oc = Raised e"
    by (auto simp: attempt_def split: if_splits)
  from r(1,2) m a have "current_api_idx st + 1 = length (GEMINI_API_KEYS cfg)"
    "current_model_idx st + 1 = length (GEMINI_MODELS cfg)" by auto
  with q r(3) show ?thesis by (simp add: quota_at_last_def)
qed

lemma go_on_is_not_quota_at_last:
  assumes "attempt cfg st oc = Raised e"
    and "handle_exception cfg st e = Inr (Go_on st')"
  shows "\<not> quota_at_last cfg (current_api_idx st, current_model_idx st) oc"
proof
  assume "quota_at_last cfg (current_api_idx st, current_model_idx st) oc"
  then obtain e' where q: "current_api_idx st + 1 = length (GEMINI_API_KEYS cfg)"
    "current_model_idx st + 1 = length (GEMINI_MODELS cfg)"
    "oc = Raised e'" "is_rate_limit e'" "\<not> is_not_found e'"
    by (auto simp: quota_at_last_def split: outcome.splits)
  from q(1,2,3) assms(1) have "e = e'" by (auto simp: attempt_def split: if_splits)
  with q have "handle_exception cfg st e
                 = Inr (Return (''CONTINUE'', JStr ''All APIs exhausted''))"
    by (auto simp: handle_exception_def)
  with assms(2) show False by simp
qed

lemma get_command_loop_total:
  assumes "GEMINI_MODELS cfg \<noteq> [] \<or> n = 0"
  shows "\<exists>r st' tr. get_command_loop py cfg call n k st = Inr (r, st', tr)
           \<and> length tr \<le> n
           \<and> (fst r = ''CONTINUE'' \<or> fst r = ''PAUSE'')
           \<and> ((\<forall>j<length tr. \<exists>e. call (k + j) = Raised e) \<longrightarrow>
                  r = (''CONTINUE'', JStr ''Failed'') \<and> length tr = n
                    \<and> (\<forall>j<n. \<not> quota_at_last cfg (tr ! j) (call (k + j)))
                \<or> r = (''CONTINUE'', JStr ''All APIs exhausted'') \<and> 0 < length tr
                    \<and> quota_at_last cfg (tr ! (length tr - 1)) (call (k + (length tr - 1)))
                    \<and> (\<forall>j<length tr - 1. \<not> quota_at_last cfg (tr ! j) (call (k + j))))"
  using assms
proof (induction n arbitrary: k st)
  case 0
  then show ?case by simp
next
  case (Suc n)
  then have M: "GEMINI_MODELS cfg \<noteq> []" by simp
  let ?am = "(current_api_idx st, current_model_idx st)"
  show ?case
  proof (cases "attempt cfg st (call k)")
    case (Response t)
    then have "call k = Response t"
      using attempt_cases [of cfg st "call k"] by auto
    then show ?thesis
      using Response parse_response_action [of py t] by auto
  next
    case (Raised e)
    from handle_exception_cases [OF M, of st e] show ?thesis
    proof
      assume "\<exists>st'. handle_exception cfg st e = Inr (Go_on st')"
      then obtain st' where h: "handle_exception cfg st e = Inr (Go_on st')" ..
      have nq: "\<not> quota_at_last cfg ?am (call k)"
        using go_on_is_not_quota_at_last [OF Raised h] .
      from Suc.IH [of "Suc k" st'] M obtain r st'' tr where
        ih: "get_command_loop py cfg call n (Suc k) st' = Inr (r, st'', tr)"
          "length tr \<le> n" "fst r = ''CONTINUE'' \<or> fst r = ''PAUSE''"
          "(\<forall>j<length tr. \<exists>e. call (Suc k + j) = Raised e) \<longrightarrow>
                  r = (''CONTINUE'', JStr ''Failed'') \<and> length tr = n
                    \<and> (\<forall>j<n. \<not> quota_at_last cfg (tr ! j) (call (Suc k + j)))
                \<or> r = (''CONTINUE'', JStr ''All APIs exhausted'') \<and> 0 < length tr
                    \<and> quota_at_last cfg (tr ! (length tr - 1))
                          (call (Suc k + (length tr - 1)))
                    \<and> (\<forall>j<length tr - 1. \<not> quota_at_last cfg (tr ! j) (call (Suc k + j)))"
        by blast
      have eq: "get_command_loop py cfg call (Suc n) k st = Inr (r, st'', ?am # tr)"
        using Raised h ih(1) by simp
      have concl: "r = (''CONTINUE'', JStr ''Failed'') \<and> length (?am # tr) = Suc n
                    \<and> (\<forall>j<Suc n. \<not> quota_at_last cfg ((?am # tr) ! j) (call (k + j)))
                \<or> r = (''CONTINUE'', JStr ''All APIs exhausted'') \<and> 0 < length (?am # tr)
                    \<and> quota_at_last cfg ((?am # tr) ! (length (?am # tr) - 1))
                          (call (k + (length (?am # tr) - 1)))
                    \<and> (\<forall>j<length (?am # tr) - 1.
                          \<not> quota_at_last cfg ((?am # tr) ! j) (call (k + j)))"
        if all: "\<forall>j<length (?am # tr). \<exists>e. call (k + j) = Raised e"
      proof -
        have "\<forall>j<length tr. \<exists>e. call (Suc k + j) = Raised e"
        proof (intro allI impI)
          fix j assume "j < length tr"
          then have "Suc j < length (?am # tr)" by simp
          with all have "\<exists>e. call (k + Suc j) = Raised e" by blast
          then show "\<exists>e. call (Suc k + j) = Raised e" by simp
        qed
        with ih(4) consider
          (failed) "r = (''CONTINUE'', JStr ''Failed'')" "length tr = n"
            "\<forall>j<n. \<not> quota_at_last cfg (tr ! j) (call (Suc k + j))"
        | (exhausted) "r = (''CONTINUE'', JStr ''All APIs exhausted'')" "0 < length tr"
            "quota_at_last cfg (tr ! (length tr - 1)) (call (Suc k + (length tr - 1)))"
            "\<forall>j<length tr - 1. \<not> quota_at_last cfg (tr ! j) (call (Suc k + j))"
          by blast
        then show ?thesis
        proof cases
          case failed
          have "\<forall>j<Suc n. \<not> quota_at_last cfg ((?am # tr) ! j) (call (k + j))"
            using nq failed(3) by (simp add: All_less_Suc2)
          with failed(1,2) show ?thesis by simp
        next
          case exhausted
          from exhausted(2) obtain l where l: "length tr = Suc l"
            by (cases "length tr") auto
          have last: "quota_at_last cfg ((?am # tr) ! (length (?am # tr) - 1))
                          (call (k + (length (?am # tr) - 1)))"
            using exhausted(3) l by simp
          have "\<forall>j<Suc l. \<not> quota_at_last cfg ((?am # tr) ! j) (call (k + j))"
            using nq exhausted(4) l by (simp add: All_less_Suc2)
          then have init: "\<forall>j<length (?am # tr) - 1.
                          \<not> quota_at_last cfg ((?am # tr) ! j) (call (k + j))"
            using l by simp
          from exhausted(1) last init show ?thesis by simp
        qed
      qed
      show ?thesis
        using eq ih(2,3) concl by (intro exI [of _ r] exI [of _ st''] exI [of _ "?am # tr"]) simp
    next
      assume h: "handle_exception cfg st e
                   = Inr (Return (''CONTINUE'', JStr ''All APIs exhausted''))"
      have "quota_at_last cfg ?am (call k)"
        using return_is_quota_at_last [OF Raised h] .
      then show ?thesis using Raised h by simp
    qed
  qed
qed

lemma model_only_step:
  assumes "GEMINI_MODELS cfg \<noteq> []" and "is_not_found e \<or> \<not> is_rate_limit e"
  shows "handle_exception cfg st e =
           Inr (Go_on (st\<lparr>current_model_idx :=
                            (current_model_idx st + 1) mod length (GEMINI_MODELS cfg)\<rparr>))"
  using assms by (auto simp: handle_exception_def rotate_model_def)

lemma attempt_model_only:
  assumes "\<exists>e. oc = Raised e \<and> (is_not_found e \<or> \<not> is_rate_limit e)"
  shows "\<exists>e. attempt cfg st oc = Raised e \<and> (is_not_found e \<or> \<not> is_rate_limit e)"
  using assms index_error_class by (auto simp: attempt_def)

lemma get_command_loop_model_only:
  assumes "GEMINI_MODELS cfg \<noteq> []"
    and "\<forall>j<n. \<exists>e. call (k + j) = Raised e \<and> (is_not_found e \<or> \<not> is_rate_limit e)"
  shows "get_command_loop py cfg call n k st =
           Inr ((''CONTINUE'', JStr ''Failed''),
                st\<lparr>current_model_idx :=
                      (if n = 0 then current_model_idx st
                       else (current_model_idx st + n) mod length (GEMINI_MODELS cfg))\<rparr>,
                map (\<lambda>j. (current_api_idx st,
                           if j = 0 then current_model_idx st
                           else (current_model_idx st + j) mod length (GEMINI_MODELS cfg)))
                  [0..<n])"
  using assms(2)
proof (induction n arbitrary: k st)
  case 0
  then show ?case by simp
next
  case (Suc n)
  let ?M = "length (GEMINI_MODELS cfg)"
  let ?st' = "st\<lparr>current_model_idx := (current_model_idx st + 1) mod ?M\<rparr>"
  from Suc.prems have "\<exists>e. call k = Raised e \<and> (is_not_found e \<or> \<not> is_rate_limit e)"
    by (metis add.right_neutral zero_less_Suc)
  from attempt_model_only [OF this, of cfg st] obtain e where
    e: "attempt cfg st (call k) = Raised e" "is_not_found e \<or> \<not> is_rate_limit e" by blast
  have h: "handle_exception cfg st e = Inr (Go_on ?st')"
    using model_only_step [OF assms(1) e(2)] .
  have rest: "\<forall>j<n. \<exists>e. call (Suc k + j) = Raised e \<and> (is_not_found e \<or> \<not> is_rate_limit e)"
  proof (intro allI impI)
    fix j assume "j < n"
    then have "Suc j < Suc n" by simp
    with Suc.prems have "\<exists>e. call (k + Suc j) = Raised e \<and> (is_not_found e \<or> \<not> is_rate_limit e)"
      by blast
    then show "\<exists>e. call (Suc k + j) = Raised e \<and> (is_not_found e \<or> \<not> is_rate_limit e)"
      by simp
  qed
  have ih: "get_command_loop py cfg call n (Suc k) ?st' =
           Inr ((''CONTINUE'', JStr ''Failed''),
                ?st'\<lparr>current_model_idx :=
                      (if n = 0 then current_model_idx ?st'
                       else (current_model_idx ?st' + n) mod ?M)\<rparr>,
                map (\<lambda>j. (current_api_idx ?st',
                           if j = 0 then current_model_idx ?st'
                           else (current_model_idx ?st' + j) mod ?M))
                  [0..<n])"
    using Suc.IH [OF rest] .
  have m1: "\<And>j. ((current_model_idx st + 1) mod ?M + j) mod ?M
                = (current_model_idx st + Suc j) mod ?M"
    by (simp add: mod_add_left_eq)
  have upt: "[0..<Suc n] = 0 # map Suc [0..<n]"
    by (simp add: upt_conv_Cons map_Suc_upt del: upt_Suc)
  have tr: "map (\<lambda>j. (current_api_idx ?st',
                           if j = 0 then current_model_idx ?st'
                           else (current_model_idx ?st' + j) mod ?M)) [0..<n]
          = map (\<lambda>j. (current_api_idx st,
                           if j = 0 then current_model_idx st
                           else (current_model_idx st + j) mod ?M)) (map Suc [0..<n])"
    using m1 by (auto simp: comp_def)
  have fin: "?st'\<lparr>current_model_idx :=
                      (if n = 0 then current_model_idx ?st'
                       else (current_model_idx ?st' + n) mod ?M)\<rparr>
           = st\<lparr>current_model_idx := (current_model_idx st + Suc n) mod ?M\<rparr>"
    using m1 by simp
  show ?case
    unfolding upt using e(1) h ih tr fin by (simp del: upt_Suc)
qed

text \<open>
  Claim C6, as the code has it.  \<open>get_command\<close> always returns a pair, never an
  error; it makes at most \<open>|keys| * |models|\<close> requests; the action is \<open>CONTINUE\<close> or
  \<open>PAUSE\<close>.  When every request made has raised, either the pair is
  \<open>(CONTINUE, Failed)\<close>, exactly \<open>|keys| * |models|\<close> requests were made and none of
  them met a quota error at the last model of the last credential; or the pair is
  \<open>(CONTINUE, All APIs exhausted)\<close>, and the last request made is the first that met
  such an error.
\<close>

theorem get_command_bounded:
  "\<exists>r st' tr. get_command py cfg call st = Inr (r, st', tr)
     \<and> length tr \<le> length (GEMINI_API_KEYS cfg) * length (GEMINI_MODELS cfg)
     \<and> (fst r = ''CONTINUE'' \<or> fst r = ''PAUSE'')
     \<and> ((\<forall>j<length tr. \<exists>e. call j = Raised e) \<longrightarrow>
            r = (''CONTINUE'', JStr ''Failed'')
              \<and> length tr = length (GEMINI_API_KEYS cfg) * length (GEMINI_MODELS cfg)
              \<and> (\<forall>j<length tr. \<not> quota_at_last cfg (tr ! j) (call j))
          \<or> r = (''CONTINUE'', JStr ''All APIs exhausted'') \<and> 0 < length tr
              \<and> quota_at_last cfg (tr ! (length tr - 1)) (call (length tr - 1))
              \<and> (\<forall>j<length tr - 1. \<not> quota_at_last cfg (tr ! j) (call j)))"
proof -
  let ?N = "length (GEMINI_API_KEYS cfg) * length (GEMINI_MODELS cfg)"
  have "GEMINI_MODELS cfg \<noteq> [] \<or> attempts cfg = 0" by (auto simp: attempts_def)
  from get_command_loop_total [OF this, of py call 0 st]
  have "\<exists>r st' tr. get_command py cfg call st = Inr (r, st', tr)
           \<and> length tr \<le> ?N
           \<and> (fst r = ''CONTINUE'' \<or> fst r = ''PAUSE'')
           \<and> ((\<forall>j<length tr. \<exists>e. call j = Raised e) \<longrightarrow>
                  r = (''CONTINUE'', JStr ''Failed'') \<and> length tr = ?N
                    \<and> (\<forall>j<?N. \<not> quota_at_last cfg (tr ! j) (call j))
                \<or> r = (''CONTINUE'', JStr ''All APIs exhausted'') \<and> 0 < length tr
                    \<and> quota_at_last cfg (tr ! (length tr - 1)) (call (length tr - 1))
                    \<and> (\<forall>j<length tr - 1. \<not> quota_at_last cfg (tr ! j) (call j)))"
    by (simp only: get_command_def attempts_def add_0)
  then obtain r st' tr where
    run: "get_command py cfg call st = Inr (r, st', tr)"
    and len: "length tr \<le> ?N"
    and act: "fst r = ''CONTINUE'' \<or> fst r = ''PAUSE''"
    and fail: "(\<forall>j<length tr. \<exists>e. call j = Raised e) \<longrightarrow>
            r = (''CONTINUE'', JStr ''Failed'') \<and> length tr = ?N
              \<and> (\<forall>j<?N. \<not> quota_at_last cfg (tr ! j) (call j))
          \<or> r = (''CONTINUE'', JStr ''All APIs exhausted'') \<and> 0 < length tr
              \<and> quota_at_last cfg (tr ! (length tr - 1)) (call (length tr - 1))
              \<and> (\<forall>j<length tr - 1. \<not> quota_at_last cfg (tr ! j) (call j))"
    by blast
  have "(\<forall>j<length tr. \<exists>e. call j = Raised e) \<longrightarrow>
            r = (''CONTINUE'', JStr ''Failed'') \<and> length tr = ?N
              \<and> (\<forall>j<length tr. \<not> quota_at_last cfg (tr ! j) (call j))
          \<or> r = (''CONTINUE'', JStr ''All APIs exhausted'') \<and> 0 < length tr
              \<and> quota_at_last cfg (tr ! (length tr - 1)) (call (length tr - 1))
              \<and> (\<forall>j<length tr - 1. \<not> quota_at_last cfg (tr ! j) (call j))"
    using fail by auto
  with run len act show ?thesis by blast
qed

theorem get_command_bounded_witness:
  "\<exists>st' tr. get_command sample_py sample_config (all_raise ''500 internal error'')
                \<lparr>current_api_idx = 0, current_model_idx = 0\<rparr>
              = Inr ((''CONTINUE'', JStr ''Failed''), st', tr)
     \<and> length tr = 6"
proof -
  have h: "\<And>n. \<forall>j<n. \<exists>e. all_raise ''500 internal error'' j = Raised e"
    by (simp add: all_raise_def)
  have nq: "\<And>am j. \<not> quota_at_last sample_config am (all_raise ''500 internal error'' j)"
    by (simp add: quota_at_last_def all_raise_def is_rate_limit_def lower_def lower_char_def)
  have n: "length (GEMINI_API_KEYS sample_config) * length (GEMINI_MODELS sample_config) = 6"
    by (simp add: sample_config_def)
  from get_command_bounded [of sample_py sample_config "all_raise ''500 internal error''"
      "\<lparr>current_api_idx = 0, current_model_idx = 0\<rparr>"]
  show ?thesis unfolding n using h nq by blast
qed

text \<open>
  A sweep of two keys and three models in which every request raises a server error
  uses up its six requests and returns the reason \<open>Failed\<close>.
\<close>

theorem get_command_sweep_failed:
  "get_command sample_py sample_config (all_raise ''500 internal error'')
      \<lparr>current_api_idx = 0, current_model_idx = 0\<rparr>
   = Inr ((''CONTINUE'', JStr ''Failed''), \<lparr>current_api_idx = 0, current_model_idx = 0\<rparr>,
          [(0, 0), (0, 1), (0, 2), (0, 0), (0, 1), (0, 2)])
   \<and> JStr ''Failed'' \<noteq> JStr ''all endpoints exhausted''"
  by code_simp

text \<open>
  Claim C7, as the code has it.  With a non-empty model list, the \<open>except\<close> clause
  sets the model index to \<open>(model + 1) mod |models|\<close> and keeps the credential on a
  not-found error and on any error that is no quota error; on a quota error that is no
  not-found error it moves to the next model if the model index is below
  \<open>|models| - 1\<close>, else to the next credential with the model index 0 if the credential
  index is below \<open>|keys| - 1\<close>, else it leaves both indices as they are and returns
  \<open>(CONTINUE, All APIs exhausted)\<close>.
\<close>

theorem handle_exception_rotation:
  assumes "GEMINI_MODELS cfg \<noteq> []"
  shows "handle_exception cfg st e =
     (if is_not_found e \<or> \<not> is_rate_limit e
      then Inr (Go_on (st\<lparr>current_model_idx :=
                          (current_model_idx st + 1) mod length (GEMINI_MODELS cfg)\<rparr>))
      else if current_model_idx st + 1 < length (GEMINI_MODELS cfg)
      then Inr (Go_on (st\<lparr>current_model_idx := current_model_idx st + 1\<rparr>))
      else if current_api_idx st + 1 < length (GEMINI_API_KEYS cfg)
      then Inr (Go_on (st\<lparr>current_api_idx := current_api_idx st + 1, current_model_idx := 0\<rparr>))
      else Inr (Return (''CONTINUE'', JStr ''All APIs exhausted'')))"
  using assms
  by (auto simp: handle_exception_def rotate_model_def rotate_api_def)

theorem handle_exception_rotation_witness:
  "GEMINI_MODELS sample_config \<noteq> []
   \<and> handle_exception sample_config \<lparr>current_api_idx = 0, current_model_idx = 2\<rparr>
        ''404 model not found''
       = Inr (Go_on \<lparr>current_api_idx = 0, current_model_idx = 0\<rparr>)
   \<and> handle_exception sample_config \<lparr>current_api_idx = 0, current_model_idx = 1\<rparr>
        ''429 quota exceeded''
       = Inr (Go_on \<lparr>current_api_idx = 0, current_model_idx = 2\<rparr>)
   \<and> handle_exception sample_config \<lparr>current_api_idx = 0, current_model_idx = 2\<rparr>
        ''429 quota exceeded''
       = Inr (Go_on \<lparr>current_api_idx = 1, current_model_idx = 0\<rparr>)"
proof -
  have m: "GEMINI_MODELS sample_config \<noteq> []" by (simp add: sample_config_def)
  have c: "is_not_found ''404 model not found''" "\<not> is_not_found ''429 quota exceeded''"
    "is_rate_limit ''429 quota exceeded''"
    by (simp_all add: is_not_found_def is_rate_limit_def lower_def lower_char_def)
  show ?thesis
    using m c
      handle_exception_rotation [OF m, of "\<lparr>current_api_idx = 0, current_model_idx = 2\<rparr>"
        "''404 model not found''"]
      handle_exception_rotation [OF m, of "\<lparr>current_api_idx = 0, current_model_idx = 1\<rparr>"
        "''429 quota exceeded''"]
      handle_exception_rotation [OF m, of "\<lparr>current_api_idx = 0, current_model_idx = 2\<rparr>"
        "''429 quota exceeded''"]
    by (simp add: sample_config_def)
qed

text \<open>
  A quota error at the last model of the last credential does not move on to another
  credential: \<open>get_command\<close> returns.
\<close>

theorem quota_at_last_credential_returns:
  "is_rate_limit ''429 quota exceeded'' \<and> \<not> is_not_found ''429 quota exceeded''
   \<and> handle_exception sample_config \<lparr>current_api_idx = 1, current_model_idx = 2\<rparr>
        ''429 quota exceeded''
       = Inr (Return (''CONTINUE'', JStr ''All APIs exhausted''))"
  by (simp add: handle_exception_def is_not_found_def is_rate_limit_def lower_def lower_char_def
        sample_config_def)

text \<open>
  Claim C8, as the code has it.  A response from which no valid result is parsed gives
  the action \<open>CONTINUE\<close>: with the reason \<open>Parse fallback\<close> when no braces match,
  when the decoded object has no \<open>action\<close>, or when the action is a string that
  \<open>str.upper\<close> turns into neither \<open>CONTINUE\<close> nor \<open>PAUSE\<close>; with the reason
  \<open>Parse error\<close> when decoding raises or the action is no string.  Whatever the
  response, \<open>get_command\<close> returns what \<open>parse_response\<close> gives in that same pass,
  with the globals unchanged.
\<close>

theorem parse_response_fallback:
  "(re_search_braces t = None \<longrightarrow>
       parse_response py t = (''CONTINUE'', JStr ''Parse fallback''))
   \<and> (re_search_braces t = Some m \<and> json_loads py (replace_quotes m) = None \<longrightarrow>
       parse_response py t = (''CONTINUE'', JStr ''Parse error''))
   \<and> (re_search_braces t = Some m \<and> json_loads py (replace_quotes m) = Some data
        \<and> map_of data ''action'' = None \<longrightarrow>
       parse_response py t = (''CONTINUE'', JStr ''Parse fallback''))
   \<and> (re_search_braces t = Some m \<and> json_loads py (replace_quotes m) = Some data
        \<and> map_of data ''action'' = Some v \<and> (\<forall>a. v \<noteq> JStr a) \<longrightarrow>
       parse_response py t = (''CONTINUE'', JStr ''Parse error''))
   \<and> (re_search_braces t = Some m \<and> json_loads py (replace_quotes m) = Some data
        \<and> map_of data ''action'' = Some (JStr a)
        \<and> str_upper py a \<noteq> ''CONTINUE'' \<and> str_upper py a \<noteq> ''PAUSE'' \<longrightarrow>
       parse_response py t = (''CONTINUE'', JStr ''Parse fallback''))
   \<and> (attempt cfg st (call k) = Response t \<longrightarrow>
       get_command_loop py cfg call (Suc n) k st
         = Inr (parse_response py t, st, [(current_api_idx st, current_model_idx st)]))"
  by (auto simp: parse_response_def Let_def split: jval.splits)

theorem parse_response_fallback_witness:
  "re_search_braces ''I cannot answer'' = None
   \<and> parse_response sample_py ''I cannot answer'' = (''CONTINUE'', JStr ''Parse fallback'')
   \<and> re_search_braces ''{\"action\": \"HOLD\"}'' = Some ''{\"action\": \"HOLD\"}''
   \<and> parse_response sample_py ''{\"action\": \"HOLD\"}''
       = (''CONTINUE'', JStr ''Parse fallback'')
   \<and> get_command_loop sample_py sample_config (\<lambda>k. Response ''{\"action\": \"HOLD\"}'') 6 0
        \<lparr>current_api_idx = 0, current_model_idx = 0\<rparr>
       = Inr ((''CONTINUE'', JStr ''Parse fallback''),
              \<lparr>current_api_idx = 0, current_model_idx = 0\<rparr>, [(0, 0)])"
proof -
  have a: "re_search_braces ''I cannot answer'' = None" by simp
  have b: "re_search_braces ''{\"action\": \"HOLD\"}'' = Some ''{\"action\": \"HOLD\"}''" by simp
  have c: "json_loads sample_py (replace_quotes ''{\"action\": \"HOLD\"}'')
             = Some [(''action'', JStr ''HOLD'')]"
    by (simp add: sample_py_def sample_loads_def replace_quotes_def)
  have d: "str_upper sample_py ''HOLD'' \<noteq> ''CONTINUE''"
    "str_upper sample_py ''HOLD'' \<noteq> ''PAUSE''"
    by (simp_all add: sample_py_def ascii_upper_def upper_char_def)
  have e: "attempt sample_config \<lparr>current_api_idx = 0, current_model_idx = 0\<rparr>
             ((\<lambda>k. Response ''{\"action\": \"HOLD\"}'') (0::nat))
           = Response ''{\"action\": \"HOLD\"}''"
    by (simp add: attempt_def sample_config_def)
  have six: "(6::nat) = Suc 5" by simp
  show ?thesis
    using a b c d e
      parse_response_fallback [where t = "''I cannot answer''" and py = sample_py]
      parse_response_fallback [where t = "''{\"action\": \"HOLD\"}''" and py = sample_py
        and m = "''{\"action\": \"HOLD\"}''" and data = "[(''action'', JStr ''HOLD'')]"
        and v = "JStr ''HOLD''" and a = "''HOLD''" and cfg = sample_config
        and st = "\<lparr>current_api_idx = 0, current_model_idx = 0\<rparr>"
        and call = "\<lambda>k. Response ''{\"action\": \"HOLD\"}''" and k = 0 and n = 5]
    unfolding six by simp
qed

text \<open>
  A response whose braces hold no JSON gives the reason \<open>Parse error\<close>.
\<close>

theorem parse_response_parse_error:
  "re_search_braces ''{x}'' = Some ''{x}''
   \<and> json_loads sample_py (replace_quotes ''{x}'') = None
   \<and> parse_response sample_py ''{x}'' = (''CONTINUE'', JStr ''Parse error'')
   \<and> parse_response sample_py ''{x}'' \<noteq> (''CONTINUE'', JStr ''parse fallback'')"
  by (simp add: parse_response_def sample_py_def sample_loads_def replace_quotes_def)

text \<open>
  Claim C10.  The \<open>except\<close> clause changes the credential index only on a quota
  error that is no not-found error, and only when no later model is left; on a
  not-found error or an error that is no quota error it sets the model index to
  \<open>(model + 1) mod |models|\<close> and keeps the credential.  So a sweep whose requests all
  raise such errors makes all \<open>|keys| * |models|\<close> requests under the credential it
  started with, going round that credential's models, and returns
  \<open>(CONTINUE, Failed)\<close>.
\<close>

theorem credential_kept_without_quota:
  "(handle_exception cfg st e = Inr (Go_on st') \<and> current_api_idx st' \<noteq> current_api_idx st
      \<longrightarrow> is_rate_limit e \<and> \<not> is_not_found e
          \<and> length (GEMINI_MODELS cfg) \<le> current_model_idx st + 1)
   \<and> (GEMINI_MODELS cfg \<noteq> [] \<and> (is_not_found e \<or> \<not> is_rate_limit e)
      \<longrightarrow> handle_exception cfg st e =
            Inr (Go_on (st\<lparr>current_model_idx :=
                             (current_model_idx st + 1) mod length (GEMINI_MODELS cfg)\<rparr>)))
   \<and> ((\<forall>j < length (GEMINI_API_KEYS cfg) * length (GEMINI_MODELS cfg).
          \<exists>e. call j = Raised e \<and> (is_not_found e \<or> \<not> is_rate_limit e))
      \<longrightarrow> get_command py cfg call st =
            Inr ((''CONTINUE'', JStr ''Failed''),
                 st\<lparr>current_model_idx :=
                       (if length (GEMINI_API_KEYS cfg) * length (GEMINI_MODELS cfg) = 0
                        then current_model_idx st
                        else (current_model_idx st
                                + length (GEMINI_API_KEYS cfg) * length (GEMINI_MODELS cfg))
                             mod length (GEMINI_MODELS cfg))\<rparr>,
                 map (\<lambda>j. (current_api_idx st,
                            if j = 0 then current_model_idx st
                            else (current_model_idx st + j) mod length (GEMINI_MODELS cfg)))
                   [0..<length (GEMINI_API_KEYS cfg) * length (GEMINI_MODELS cfg)]))"
proof (intro conjI impI)
  assume "handle_exception cfg st e = Inr (Go_on st') \<and> current_api_idx st' \<noteq> current_api_idx st"
  then show "is_rate_limit e" "\<not> is_not_found e"
    "length (GEMINI_MODELS cfg) \<le> current_model_idx st + 1"
    by (auto simp: handle_exception_def rotate_model_def rotate_api_def split: if_splits)
next
  assume "GEMINI_MODELS cfg \<noteq> [] \<and> (is_not_found e \<or> \<not> is_rate_limit e)"
  then show "handle_exception cfg st e =
            Inr (Go_on (st\<lparr>current_model_idx :=
                             (current_model_idx st + 1) mod length (GEMINI_MODELS cfg)\<rparr>))"
    using model_only_step by blast
next
  let ?N = "length (GEMINI_API_KEYS cfg) * length (GEMINI_MODELS cfg)"
  assume a: "\<forall>j < ?N. \<exists>e. call j = Raised e \<and> (is_not_found e \<or> \<not> is_rate_limit e)"
  show "get_command py cfg call st =
            Inr ((''CONTINUE'', JStr ''Failed''),
                 st\<lparr>current_model_idx :=
                       (if ?N = 0 then current_model_idx st
                        else (current_model_idx st + ?N) mod length (GEMINI_MODELS cfg))\<rparr>,
                 map (\<lambda>j. (current_api_idx st,
                            if j = 0 then current_model_idx st
                            else (current_model_idx st + j) mod length (GEMINI_MODELS cfg)))
                   [0..<?N])"
  proof (cases "GEMINI_MODELS cfg = []")
    case True
    then show ?thesis by (simp add: get_command_def attempts_def)
  next
    case False
    from a have "\<forall>j < ?N. \<exists>e. call (0 + j) = Raised e \<and> (is_not_found e \<or> \<not> is_rate_limit e)"
      by simp
    from get_command_loop_model_only [OF False this, of py st] show ?thesis
      by (simp add: get_command_def attempts_def)
  qed
qed

theorem credential_kept_without_quota_witness:
  "is_not_found ''404 model not found''
   \<and> get_command sample_py sample_config (all_raise ''404 model not found'')
        \<lparr>current_api_idx = 0, current_model_idx = 1\<rparr>
      = Inr ((''CONTINUE'', JStr ''Failed''), \<lparr>current_api_idx = 0, current_model_idx = 1\<rparr>,
             [(0, 1), (0, 2), (0, 0), (0, 1), (0, 2), (0, 0)])"
proof -
  have c: "is_not_found ''404 model not found''"
    by (simp add: is_not_found_def lower_def lower_char_def)
  have n: "length (GEMINI_API_KEYS sample_config) = 2" "length (GEMINI_MODELS sample_config) = 3"
    by (simp_all add: sample_config_def)
  have h: "\<forall>j<6. \<exists>e. all_raise ''404 model not found'' j = Raised e
             \<and> (is_not_found e \<or> \<not> is_rate_limit e)"
    using c by (simp add: all_raise_def)
  have u: "[0..<6] = [0, 1, 2, 3, 4, 5]" by (simp add: upt_rec)
  from credential_kept_without_quota [where cfg = sample_config
      and st = "\<lparr>current_api_idx = 0, current_model_idx = 1\<rparr>"
      and call = "all_raise ''404 model not found''" and py = sample_py]
  show ?thesis using h c by (simp add: n u)
qed

section \<open>Properties of the quant engine\<close>

lemma length_target: "length (target cs) = length cs"
  by (induction cs rule: target.induct) simp_all

lemma target_nth:
  "j < length cs \<Longrightarrow>
     target cs ! j = (if Suc j < length cs \<and> fl_gt (cs ! Suc j) (cs ! j) then 1 else 0)"
proof (induction cs arbitrary: j rule: target.induct)
  case 1
  then show ?case by simp
next
  case (2 c)
  then show ?case by simp
next
  case (3 c c' cs)
  show ?case
  proof (cases j)
    case 0
    then show ?thesis by simp
  next
    case (Suc i)
    with 3 show ?thesis by simp
  qed
qed

lemma length_df_train: "length (df_train df) = length df - 1"
  by (simp add: df_train_def length_target)

lemma df_train_nth:
  assumes "j < length df - 1"
  shows "df_train df ! j
           = (df ! j, if fl_gt (Close (df ! Suc j)) (Close (df ! j)) then 1 else 0)"
proof -
  have j: "j < length df" "Suc j < length df" using assms by simp_all
  have "df_train df ! j = zip df (target (map Close df)) ! j"
    using assms by (simp add: df_train_def nth_butlast length_target)
  also have "\<dots> = (df ! j, target (map Close df) ! j)"
    using j by (simp add: length_target)
  also have "target (map Close df) ! j
               = (if fl_gt (Close (df ! Suc j)) (Close (df ! j)) then 1 else 0)"
    using j target_nth [of j "map Close df"] by simp
  finally show ?thesis .
qed

lemma df_train_spec: "df_train df = spec_labelled_rows df"
proof (rule nth_equalityI)
  show "length (df_train df) = length (spec_labelled_rows df)"
    by (simp add: length_df_train spec_labelled_rows_def)
next
  fix j assume "j < length (df_train df)"
  then have j: "j < length df - 1" by (simp add: length_df_train)
  then show "df_train df ! j = spec_labelled_rows df ! j"
    by (simp add: df_train_nth spec_labelled_rows_def)
qed

text \<open>
  Claim C9.  The rows that \<open>train_and_predict\<close> labels and keeps are the frame
  without its last row, each labelled 1 exactly when the next row's close is strictly
  greater than its own and 0 otherwise.  With fewer than 50 of them the function
  returns \<open>None\<close>, which is no error; otherwise it fits the classifier on the features
  and labels of exactly these rows and predicts on the last row of the frame.
\<close>

theorem train_and_predict_labels:
  "df_train df = spec_labelled_rows df
   \<and> length (spec_labelled_rows df) = length df - 1
   \<and> map fst (spec_labelled_rows df) = butlast df
   \<and> train_and_predict m df =
       (if length df - 1 < 50 then Inr None
        else
          (case xgb_fit_predict m (map (feature_cols \<circ> fst) (spec_labelled_rows df))
                  (map snd (spec_labelled_rows df)) (feature_cols (last df)) of
             Inl e \<Rightarrow> Inl e
           | Inr (pred, proba) \<Rightarrow>
               (case np_index proba pred of
                  Inl e \<Rightarrow> Inl e
                | Inr c \<Rightarrow>
                    Inr (Some \<lparr>s_timestamp = Datetime (last df),
                               s_signal = (if pred = 1 then ''BUY'' else ''SELL''),
                               s_confidence = py_round m c 4,
                               s_rsi = py_round m (RSI (last df)) 2\<rparr>))))"
proof (intro conjI)
  show "df_train df = spec_labelled_rows df" by (rule df_train_spec)
  show "length (spec_labelled_rows df) = length df - 1"
    by (simp add: spec_labelled_rows_def)
  have "map fst (df_train df) = butlast df"
    by (simp add: df_train_def map_butlast length_target)
  then show "map fst (spec_labelled_rows df) = butlast df"
    by (simp add: df_train_spec)
  show "train_and_predict m df =
       (if length df - 1 < 50 then Inr None
        else
          (case xgb_fit_predict m (map (feature_cols \<circ> fst) (spec_labelled_rows df))
                  (map snd (spec_labelled_rows df)) (feature_cols (last df)) of
             Inl e \<Rightarrow> Inl e
           | Inr (pred, proba) \<Rightarrow>
               (case np_index proba pred of
                  Inl e \<Rightarrow> Inl e
                | Inr c \<Rightarrow>
                    Inr (Some \<lparr>s_timestamp = Datetime (last df),
                               s_signal = (if pred = 1 then ''BUY'' else ''SELL''),
                               s_confidence = py_round m c 4,
                               s_rsi = py_round m (RSI (last df)) 2\<rparr>))))"
    unfolding train_and_predict_def df_train_spec
    by (simp add: spec_labelled_rows_def)
qed

theorem train_and_predict_labels_witness:
  "length sample_frame - 1 = 50
   \<and> last (map snd (spec_labelled_rows sample_frame)) = 1
   \<and> train_and_predict sample_ml sample_frame
       = Inr (Some \<lparr>s_timestamp = ''09:30'', s_signal = ''BUY'',
                    s_confidence = Finite (3 / 5), s_rsi = Finite 50\<rparr>)
   \<and> train_and_predict sample_ml (take 3 sample_frame) = Inr None"
proof -
  have len: "length sample_frame = 51" by (simp add: sample_frame_def)
  have nth: "\<And>j. j < 51 \<Longrightarrow>
               sample_frame ! j = sample_row (if j = 50 then ''09:30'' else ''earlier'') (real j)"
    by (simp add: sample_frame_def)
  have "sample_frame \<noteq> []" using len by auto
  then have "last sample_frame = sample_frame ! (length sample_frame - 1)"
    by (rule last_conv_nth)
  then have lastrow: "last sample_frame = sample_row ''09:30'' 50"
    using nth [of 50] len by simp
  have lab: "spec_labelled_rows sample_frame
               = map (\<lambda>j. (sample_frame ! j,
                            if fl_gt (Close (sample_frame ! Suc j)) (Close (sample_frame ! j))
                            then 1 else 0)) [0..<50]"
    by (simp add: spec_labelled_rows_def len)
  have lastlab: "last (map snd (spec_labelled_rows sample_frame)) = 1"
    unfolding lab using nth [of 49] nth [of 50]
    by (simp add: last_map sample_row_def fl_gt_def)
  have lens: "length (spec_labelled_rows sample_frame) = 50"
    by (simp add: lab)
  have short: "length (take 3 sample_frame) - 1 < 50" by (simp add: len)
  have idx: "np_index [Finite (2 / 5), Finite (3 / 5)] 1 = Inr (Finite (3 / 5))"
    by (simp add: np_index_def Let_def)
  have ne: "map snd (spec_labelled_rows sample_frame) \<noteq> []"
    using lens by auto
  show ?thesis
    using len lastlab lastrow lens short idx ne
      train_and_predict_labels [of sample_frame sample_ml]
      train_and_predict_labels [of "take 3 sample_frame" sample_ml]
    by (simp add: sample_ml_def sample_row_def)
qed

end
